theory Spec2Isabelle
  imports Main "HOL-Library.Sublist"
begin

section \<open>The contribution-graph generator\<close>

text \<open>
  The source file \<^verbatim>\<open>scripts/generate-contrib-svg.mjs\<close> holds two scripts. The first
  (lines 1 to 211) has a palette of five colours, a header line, a legend and tooltips of
  the form \<^verbatim>\<open>3 contributions on March 5th\<close>. The second (lines 212 to 378) has a
  palette of four colours and tooltips of the form \<^verbatim>\<open>2024-03-05: 3 contributions\<close>.
  Definitions of the first script keep the names of the source; those of the second
  script carry the suffix \<open>2\<close>.
\<close>

subsection \<open>Constants\<close>

definition USERNAME :: string where
  "USERNAME = ''fiona-cai''"

definition PALETTE :: "string list" where
  "PALETTE = [''#97BAA9'', ''#ABCCA3'', ''#C8D9AA'', ''#F3DEB4'', ''#FBD2C6'']"

definition PALETTE2 :: "string list" where
  "PALETTE2 = [''#EFCAD1'', ''#E9B8C1'', ''#C0D9BA'', ''#ABCCA3'']"

definition CELL :: nat where "CELL = 11"
definition GAP :: nat where "GAP = 2"
definition WEEKS :: nat where "WEEKS = 53"
definition DAYS :: nat where "DAYS = 7"
definition PAD_X :: nat where "PAD_X = 10"
definition PAD_Y :: nat where "PAD_Y = 10"
definition HEADER_HEIGHT :: nat where "HEADER_HEIGHT = 24"
definition LEGEND_HEIGHT :: nat where "LEGEND_HEIGHT = 28"

subsection \<open>Quantization\<close>

text \<open>
  Counts are the integers of the API's JSON; the level is an index into the palette.
\<close>

definition levelFromCount :: "int \<Rightarrow> nat" where
  "levelFromCount count =
     (if count = 0 then 0
      else if count \<le> 2 then 1
      else if count \<le> 5 then 2
      else if count \<le> 9 then 3
      else 4)"

definition levelFromCount2 :: "int \<Rightarrow> nat" where
  "levelFromCount2 count =
     (if count = 0 then 0
      else if count \<le> 2 then 1
      else if count \<le> 6 then 2
      else 3)"

subsection \<open>Data\<close>

text \<open>
  The calendar as the API's JSON delivers it. A field that the code reads through
  \<^verbatim>\<open>??\<close> is an option: \<open>None\<close> is JavaScript's \<^verbatim>\<open>null\<close> or
  \<^verbatim>\<open>undefined\<close>. Counts and weekday indices are JSON integers (the API's type
  \<open>Int\<close>), which the host language prints in plain decimal.
\<close>

record day =
  date :: "string option"
  contributionCount :: "int option"
  weekday :: int

record week =
  contributionDays :: "day list option"

record calendar =
  weeks :: "week list"
  totalContributions :: "int option"

text \<open>
  The values that \<^verbatim>\<open>dateStr.split("-").map(Number)\<close> and the destructuring of its
  result can yield: an integer of absolute value at most \<open>2 ^ 53\<close> (\<open>Num\<close>; a
  double holds it exactly and \<^verbatim>\<open>String\<close> prints its decimal digits),
  \<^verbatim>\<open>NaN\<close>, \<^verbatim>\<open>undefined\<close> (a component that the date string does not
  have), and any other number (a fraction, a larger integer, an infinity), which carries
  the text that \<^verbatim>\<open>String\<close> gives for it.
\<close>

datatype jsval = Num int | NaN | Undefined | Other string

datatype error = TypeError | SyntaxError | Error string | SystemError string

subsection \<open>Strings and numbers of the host language\<close>

text \<open>
  \<^verbatim>\<open>String(n)\<close>, and \<open>n\<close> in a template literal, for an integer of absolute value
  at most \<open>2 ^ 53\<close>: its decimal digits, with a minus sign when negative. Above that
  bound a number of the host language is a rounded value, printed with rounded digits
  and, from \<open>10 ^ 21\<close>, in exponent form. The integers of a calendar lie within the
  bound; the theorems C5 and C9, which speak of the text of an arbitrary integer, carry
  the bound as a hypothesis.
\<close>

fun String_nat :: "nat \<Rightarrow> string" where
  "String_nat n =
     (if n < 10 then [char_of (48 + n)]
      else String_nat (n div 10) @ [char_of (48 + n mod 10)])"

declare String_nat.simps [simp del]

definition String_int :: "int \<Rightarrow> string" where
  "String_int i = (if i < 0 then CHR ''-'' # String_nat (nat (- i)) else String_nat (nat i))"

fun String_of :: "jsval \<Rightarrow> string" where
  "String_of (Num i) = String_int i"
| "String_of NaN = ''NaN''"
| "String_of Undefined = ''undefined''"
| "String_of (Other r) = r"

definition endsWith :: "string \<Rightarrow> string \<Rightarrow> bool" where
  "endsWith s t = suffix t s"

text \<open>\<^verbatim>\<open>s.replaceAll(c, r)\<close> for a pattern \<open>c\<close> of one character.\<close>

definition replaceAll :: "char \<Rightarrow> string \<Rightarrow> string \<Rightarrow> string" where
  "replaceAll c r s = concat (map (\<lambda>x. if x = c then r else [x]) s)"

text \<open>\<^verbatim>\<open>s.split(sep)\<close> for a separator of one character.\<close>

fun String_split :: "char \<Rightarrow> string \<Rightarrow> string list" where
  "String_split sep [] = [[]]"
| "String_split sep (c # cs) =
     (if c = sep then [] # String_split sep cs
      else (case String_split sep cs of
              [] \<Rightarrow> [[c]]
            | p # ps \<Rightarrow> (c # p) # ps))"

text \<open>
  \<^verbatim>\<open>Number(s)\<close> for a string. The empty string is 0, and a string of decimal digits
  whose value is at most \<open>2 ^ 53\<close> is that integer. On every other string (white
  space, a sign, a fraction, an exponent, a radix prefix, more digits than a double
  holds, text that is no number) the result is left to the parameter \<open>host\<close>, the
  conversion of the host language, about which nothing is assumed.
\<close>

definition is_digit :: "char \<Rightarrow> bool" where
  "is_digit c = (48 \<le> (of_char c :: nat) \<and> (of_char c :: nat) \<le> 57)"

definition decimal :: "string \<Rightarrow> int" where
  "decimal s = foldl (\<lambda>a c. 10 * a + (of_char c - 48)) 0 s"

definition Number_str :: "(string \<Rightarrow> jsval) \<Rightarrow> string \<Rightarrow> jsval" where
  "Number_str host s =
     (if s = [] then Num 0
      else if list_all is_digit s \<and> decimal s \<le> 2 ^ 53 then Num (decimal s)
      else host s)"

text \<open>An array element in a template literal: out of range it reads \<^verbatim>\<open>undefined\<close>.\<close>

definition palette_at :: "string list \<Rightarrow> nat \<Rightarrow> string" where
  "palette_at p i = (if i < length p then p ! i else ''undefined'')"

subsection \<open>Escaping and tooltips\<close>

definition svgEscape :: "string \<Rightarrow> string" where
  "svgEscape s =
     replaceAll (CHR 0x22) ''&quot;''
       (replaceAll CHR ''>'' ''&gt;''
         (replaceAll CHR ''<'' ''&lt;''
           (replaceAll CHR ''&'' ''&amp;'' s)))"

definition MONTHS :: "string list" where
  "MONTHS = [''January'', ''February'', ''March'', ''April'', ''May'', ''June'', ''July'',
     ''August'', ''September'', ''October'', ''November'', ''December'']"

definition ordinal :: "jsval \<Rightarrow> string" where
  "ordinal n =
     (let s = String_of n in
      if endsWith s ''11'' \<or> endsWith s ''12'' \<or> endsWith s ''13'' then s @ ''th''
      else if endsWith s ''1'' then s @ ''st''
      else if endsWith s ''2'' then s @ ''nd''
      else if endsWith s ''3'' then s @ ''rd''
      else s @ ''th'')"

text \<open>
  \<^verbatim>\<open>MONTHS[m - 1]\<close> as the template literal prints it. Only an integer from 1 to 12
  selects a month; \<^verbatim>\<open>NaN\<close>, \<^verbatim>\<open>undefined\<close> and every other number index no
  element, and the template prints \<^verbatim>\<open>undefined\<close>.
\<close>

fun month_text :: "jsval \<Rightarrow> string" where
  "month_text (Num m) =
     (if 1 \<le> m \<and> m \<le> 12 then MONTHS ! nat (m - 1) else ''undefined'')"
| "month_text _ = ''undefined''"

text \<open>The element \<open>i\<close> of a destructured array: \<^verbatim>\<open>undefined\<close> beyond its end.\<close>

definition element :: "jsval list \<Rightarrow> nat \<Rightarrow> jsval" where
  "element xs i = (if i < length xs then xs ! i else Undefined)"

definition formatTooltipDate :: "(string \<Rightarrow> jsval) \<Rightarrow> string \<Rightarrow> int \<Rightarrow> string" where
  "formatTooltipDate host dateStr count =
     (if dateStr = [] then []
      else
        let parts = map (Number_str host) (String_split CHR ''-'' dateStr);
            m = element parts 1;
            d = element parts 2;
            month = month_text m;
            day = ordinal d
        in String_int count @ '' contribution'' @ (if count = 1 then [] else ''s'') @
           '' on '' @ month @ '' '' @ day)"

subsection \<open>The grid\<close>

text \<open>
  The copy of the week list, the loop that puts empty weeks in front of it, and the
  splice that removes weeks from its front.
\<close>

function unshiftLoop :: "week list \<Rightarrow> week list" where
  "unshiftLoop pw =
     (if length pw < WEEKS
      then unshiftLoop (\<lparr>contributionDays = Some []\<rparr> # pw)
      else pw)"
  by pat_completeness auto
termination
  by (relation "measure (\<lambda>pw. WEEKS - length pw)") auto

declare unshiftLoop.simps [simp del]

definition paddedWeeks :: "week list \<Rightarrow> week list" where
  "paddedWeeks ws =
     (let pw = unshiftLoop ws
      in if length pw > WEEKS then drop (length pw - WEEKS) pw else pw)"

text \<open>The map from weekday to day: a later entry of the list replaces an earlier one.\<close>

definition byWeekday :: "day list \<Rightarrow> (int \<rightharpoonup> day)" where
  "byWeekday days = foldl (\<lambda>m d. m(weekday d \<mapsto> d)) Map.empty days"

definition count_of :: "day option \<Rightarrow> int" where
  "count_of day =
     (case day of None \<Rightarrow> 0
      | Some d \<Rightarrow> (case contributionCount d of None \<Rightarrow> 0 | Some c \<Rightarrow> c))"

definition date_of :: "day option \<Rightarrow> string" where
  "date_of day =
     (case day of None \<Rightarrow> []
      | Some d \<Rightarrow> (case date d of None \<Rightarrow> [] | Some s \<Rightarrow> s))"

subsection \<open>The first script\<close>

definition gridOffsetY :: nat where
  "gridOffsetY = HEADER_HEIGHT + PAD_Y"

text \<open>The text that one pass of the inner loop appends to \<^verbatim>\<open>rects\<close>.\<close>

definition cell :: "(string \<Rightarrow> jsval) \<Rightarrow> nat \<Rightarrow> nat \<Rightarrow> day option \<Rightarrow> string" where
  \<open>cell host x y day =
    (let count = count_of day;
         date = date_of day;
         level = levelFromCount count;
         fill = palette_at PALETTE level;
         rx = 2;
         px = PAD_X + x * (CELL + GAP);
         py = gridOffsetY + y * (CELL + GAP);
         title = (if date \<noteq> [] then formatTooltipDate host date count else [])
     in
      ''\<newline>'' @
      ''  <rect x="'' @ String_nat px @ ''" y="'' @ String_nat py @ ''" width="'' @
        String_nat CELL @ ''" height="'' @ String_nat CELL @ ''" rx="'' @
        String_nat rx @ ''" ry="'' @ String_nat rx @ ''" fill="'' @ fill @
        ''">\<newline>'' @
      ''    '' @
        (if title \<noteq> [] then ''<title>'' @ svgEscape title @ ''</title>'' else []) @
        ''\<newline>'' @
      ''  </rect>'')\<close>

function dayLoop ::
  "(string \<Rightarrow> jsval) \<Rightarrow> nat \<Rightarrow> (int \<rightharpoonup> day) \<Rightarrow> nat \<Rightarrow> string \<Rightarrow> string" where
  "dayLoop host x byW y rects =
     (if y < DAYS then dayLoop host x byW (y + 1) (rects @ cell host x y (byW (int y)))
      else rects)"
  by pat_completeness auto
termination
  by (relation "measure (\<lambda>(host, x, byW, y, rects). DAYS - y)") auto

declare dayLoop.simps [simp del]

text \<open>
  The outer loop. Reading \<^verbatim>\<open>week.contributionDays\<close> raises a type error when
  \<^verbatim>\<open>paddedWeeks[x]\<close> is undefined.
\<close>

function weekLoop ::
  "(string \<Rightarrow> jsval) \<Rightarrow> week list \<Rightarrow> nat \<Rightarrow> string \<Rightarrow> error + string" where
  "weekLoop host pw x rects =
     (if x < WEEKS then
        (if x < length pw then
           (let week = pw ! x;
                days = (case contributionDays week of None \<Rightarrow> [] | Some ds \<Rightarrow> ds)
            in weekLoop host pw (x + 1) (dayLoop host x (byWeekday days) 0 rects))
         else Inl TypeError)
      else Inr rects)"
  by pat_completeness auto
termination
  by (relation "measure (\<lambda>(host, pw, x, rects). WEEKS - x)") auto

declare weekLoop.simps [simp del]

text \<open>
  The legend loop. The renderer calls it with \<open>legendY = 147\<close>, so the subtraction
  in the \<open>y\<close> attribute does not go below zero.
\<close>

function legendLoop :: "nat \<Rightarrow> nat \<Rightarrow> nat \<Rightarrow> nat \<Rightarrow> nat \<Rightarrow> string \<Rightarrow> string" where
  \<open>legendLoop legendStartX legendY legendSwatchSize legendGap i legendSwatches =
     (if i < length PALETTE then
        (let lx = legendStartX + i * (legendSwatchSize + legendGap)
         in legendLoop legendStartX legendY legendSwatchSize legendGap (i + 1)
              (legendSwatches @
                ''\<newline>'' @
                ''  <rect x="'' @ String_nat lx @ ''" y="'' @
                  String_nat (legendY - legendSwatchSize + 2) @ ''" width="'' @
                  String_nat legendSwatchSize @ ''" height="'' @
                  String_nat legendSwatchSize @ ''" rx="2" ry="2" fill="'' @
                  palette_at PALETTE i @ ''"/>''))
      else legendSwatches)\<close>
  by pat_completeness auto
termination
  by (relation "measure (\<lambda>(sx, ly, sz, g, i, acc). length PALETTE - i)") auto

declare legendLoop.simps [simp del]

definition renderSVG :: "(string \<Rightarrow> jsval) \<Rightarrow> calendar \<Rightarrow> error + string" where
  \<open>renderSVG host calendar =
    (let weeks = weeks calendar;
         totalContributions = (case totalContributions calendar of None \<Rightarrow> 0 | Some t \<Rightarrow> t);
         paddedWeeks = paddedWeeks weeks;
         gridWidth = PAD_X * 2 + WEEKS * CELL + (WEEKS - 1) * GAP;
         gridHeight = PAD_Y * 2 + DAYS * CELL + (DAYS - 1) * GAP;
         width = gridWidth;
         height = HEADER_HEIGHT + gridHeight + LEGEND_HEIGHT;
         bg = ''transparent'';
         textColor = ''#8b949e''
     in case weekLoop host paddedWeeks 0 [] of
          Inl e \<Rightarrow> Inl e
        | Inr rects \<Rightarrow>
       (let summaryText = String_int totalContributions @ '' contribution'' @
              (if totalContributions = 1 then [] else ''s'') @ '' in the last year'';
            legendY = height - 14;
            legendSwatchSize = 10;
            legendGap = 2;
            legendStartX = width - 120;
            legendSwatches = legendLoop legendStartX legendY legendSwatchSize legendGap 0 []
        in Inr (
          ''<?xml version="1.0" encoding="UTF-8"?>\<newline>'' @
          ''<svg width="'' @ String_nat width @ ''" height="'' @ String_nat height @
            ''"\<newline>'' @
          ''     viewBox="0 0 '' @ String_nat width @ '' '' @ String_nat height @
            ''"\<newline>'' @
          ''     xmlns="http://www.w3.org/2000/svg"\<newline>'' @
          ''     role="img"\<newline>'' @
          ''     aria-label="GitHub contributions graph for '' @ USERNAME @
            ''">\<newline>'' @
          ''  <rect width="100%" height="100%" fill="'' @ bg @ ''" />\<newline>'' @
          ''  <text x="0" y="16" font-family="system-ui, -apple-system, sans-serif" font-size="12" fill="'' @
            textColor @ ''">'' @ svgEscape summaryText @ ''</text>\<newline>'' @
          ''  <g>\<newline>'' @
          ''    '' @ rects @ ''\<newline>'' @
          ''  </g>\<newline>'' @
          ''  <text x="'' @ String_nat (legendStartX - 32) @ ''" y="'' @
            String_nat legendY @
            ''" font-family="system-ui, -apple-system, sans-serif" font-size="9" fill="'' @
            textColor @ ''">Less</text>\<newline>'' @
          ''  '' @ legendSwatches @ ''\<newline>'' @
          ''  <text x="'' @
            String_nat (legendStartX + length PALETTE * (legendSwatchSize + legendGap) + 6) @
            ''" y="'' @ String_nat legendY @
            ''" font-family="system-ui, -apple-system, sans-serif" font-size="9" fill="'' @
            textColor @ ''">More</text>\<newline>'' @
          ''</svg>\<newline>'')))\<close>

subsection \<open>The second script\<close>

definition cell2 :: "nat \<Rightarrow> nat \<Rightarrow> day option \<Rightarrow> string" where
  \<open>cell2 x y day =
    (let count = count_of day;
         date = date_of day;
         level = levelFromCount2 count;
         fill = palette_at PALETTE2 level;
         rx = 2;
         px = PAD_X + x * (CELL + GAP);
         py = PAD_Y + y * (CELL + GAP);
         title = (if date \<noteq> []
                  then date @ '': '' @ String_int count @ '' contribution'' @
                       (if count = 1 then [] else ''s'')
                  else [])
     in
      ''\<newline>'' @
      ''  <rect x="'' @ String_nat px @ ''" y="'' @ String_nat py @ ''" width="'' @
        String_nat CELL @ ''" height="'' @ String_nat CELL @ ''" rx="'' @
        String_nat rx @ ''" ry="'' @ String_nat rx @ ''" fill="'' @ fill @
        ''">\<newline>'' @
      ''    '' @
        (if title \<noteq> [] then ''<title>'' @ svgEscape title @ ''</title>'' else []) @
        ''\<newline>'' @
      ''  </rect>'')\<close>

function dayLoop2 :: "nat \<Rightarrow> (int \<rightharpoonup> day) \<Rightarrow> nat \<Rightarrow> string \<Rightarrow> string" where
  "dayLoop2 x byW y rects =
     (if y < DAYS then dayLoop2 x byW (y + 1) (rects @ cell2 x y (byW (int y)))
      else rects)"
  by pat_completeness auto
termination
  by (relation "measure (\<lambda>(x, byW, y, rects). DAYS - y)") auto

declare dayLoop2.simps [simp del]

function weekLoop2 :: "week list \<Rightarrow> nat \<Rightarrow> string \<Rightarrow> error + string" where
  "weekLoop2 pw x rects =
     (if x < WEEKS then
        (if x < length pw then
           (let week = pw ! x;
                days = (case contributionDays week of None \<Rightarrow> [] | Some ds \<Rightarrow> ds)
            in weekLoop2 pw (x + 1) (dayLoop2 x (byWeekday days) 0 rects))
         else Inl TypeError)
      else Inr rects)"
  by pat_completeness auto
termination
  by (relation "measure (\<lambda>(pw, x, rects). WEEKS - x)") auto

declare weekLoop2.simps [simp del]

definition renderSVG2 :: "calendar \<Rightarrow> error + string" where
  \<open>renderSVG2 calendar =
    (let weeks = weeks calendar;
         paddedWeeks = paddedWeeks weeks;
         width = PAD_X * 2 + WEEKS * CELL + (WEEKS - 1) * GAP;
         height = PAD_Y * 2 + DAYS * CELL + (DAYS - 1) * GAP;
         bg = ''transparent''
     in case weekLoop2 paddedWeeks 0 [] of
          Inl e \<Rightarrow> Inl e
        | Inr rects \<Rightarrow>
          Inr (
          ''<?xml version="1.0" encoding="UTF-8"?>\<newline>'' @
          ''<svg width="'' @ String_nat width @ ''" height="'' @ String_nat height @
            ''"\<newline>'' @
          ''     viewBox="0 0 '' @ String_nat width @ '' '' @ String_nat height @
            ''"\<newline>'' @
          ''     xmlns="http://www.w3.org/2000/svg"\<newline>'' @
          ''     role="img"\<newline>'' @
          ''     aria-label="GitHub contributions graph for '' @ USERNAME @
            ''">\<newline>'' @
          ''  <rect width="100%" height="100%" fill="'' @ bg @ ''" />\<newline>'' @
          ''  <g>\<newline>'' @
          ''    '' @ rects @ ''\<newline>'' @
          ''  </g>\<newline>'' @
          ''</svg>\<newline>''))\<close>

subsection \<open>The program\<close>

text \<open>
  What the program reads from the world and what it does to it. The HTTP exchange is a
  function from the token of the request's \<^verbatim>\<open>Authorization\<close> header to the
  response, or to the error with which the request fails; a response is reduced to what
  \<^verbatim>\<open>fetchCalendar\<close> reads of it. The file system
  answers each call with an error or with none; \<^verbatim>\<open>path.join\<close> and the
  conversion of \<^verbatim>\<open>Number\<close> are those of the host.
\<close>

datatype chain = ChainRaises | ChainValue "calendar option"

record json =
  errors :: "string option"
  contributionCalendar :: chain

record response =
  ok :: bool
  status :: int
  body :: string
  parsed :: "error + json"

record world =
  GH_TOKEN :: "string option"
  fetch :: "string \<Rightarrow> error + response"
  cwd :: string
  path_join :: "string \<Rightarrow> string \<Rightarrow> string"
  mkdirSync :: "string \<Rightarrow> error option"
  writeFileSync :: "string \<Rightarrow> string \<Rightarrow> error option"
  Number_host :: "string \<Rightarrow> jsval"

datatype event =
    HttpPost string
  | MkDir string
  | WriteFile string string
  | ConsoleLog string
  | ConsoleError error
  | Exit nat

text \<open>
  In a response, \<open>body\<close> is what \<^verbatim>\<open>res.text()\<close> gives, \<open>parsed\<close> what
  \<^verbatim>\<open>res.json()\<close> gives (an error when the body is no JSON object),
  \<open>errors\<close> is \<^verbatim>\<open>JSON.stringify(json.errors, null, 2)\<close> when
  \<^verbatim>\<open>json.errors?.length\<close> is truthy, and \<open>contributionCalendar\<close> is the outcome of
  \<^verbatim>\<open>json.data.user.contributionsCollection.contributionCalendar\<close>: a type error when
  a link of the chain is missing, the value otherwise (\<open>None\<close>: undefined or null).
  Each function returns the events it caused and its result.
\<close>

definition fetchCalendar ::
  "(string \<Rightarrow> error + response) \<Rightarrow> string \<Rightarrow>
     event list \<times> (error + calendar option)" where
  "fetchCalendar http token =
     (let tr = [HttpPost token]
      in case http token of
           Inl e \<Rightarrow> (tr, Inl e)
         | Inr res \<Rightarrow>
             if \<not> ok res then
               (tr, Inl (Error (''GitHub API error: '' @ String_int (status res) @
                                ''\<newline>'' @ body res)))
             else
               (case parsed res of
                  Inl e \<Rightarrow> (tr, Inl e)
                | Inr json \<Rightarrow>
                    (case errors json of
                       Some e \<Rightarrow> (tr, Inl (Error (''GraphQL errors:\<newline>'' @ e)))
                     | None \<Rightarrow>
                         (case contributionCalendar json of
                            ChainRaises \<Rightarrow> (tr, Inl TypeError)
                          | ChainValue c \<Rightarrow> (tr, Inr c)))))"

text \<open>
  The steps of \<^verbatim>\<open>main\<close> after the calendar is rendered: the directory, the file, the
  message.
\<close>

definition writeOutput :: "world \<Rightarrow> string \<Rightarrow> event list \<times> (error + unit)" where
  "writeOutput w svg =
     (let outDir = path_join w (cwd w) ''assets'';
          outFile = path_join w outDir ''contributions.svg''
      in case mkdirSync w outDir of
           Some e \<Rightarrow> ([MkDir outDir], Inl e)
         | None \<Rightarrow>
             (case writeFileSync w outFile svg of
                Some e \<Rightarrow> ([MkDir outDir, WriteFile outFile svg], Inl e)
              | None \<Rightarrow>
                  ([MkDir outDir, WriteFile outFile svg, ConsoleLog (''Wrote '' @ outFile)],
                   Inr ())))"

text \<open>
  \<^verbatim>\<open>!token\<close> holds for an unset variable and for the empty string. A calendar that is
  undefined makes \<^verbatim>\<open>renderSVG\<close> raise a type error at \<^verbatim>\<open>calendar.weeks\<close>.
\<close>

definition main :: "world \<Rightarrow> event list \<times> (error + unit)" where
  "main w =
     (case GH_TOKEN w of
        None \<Rightarrow> ([], Inl (Error ''Missing GH_TOKEN env var.''))
      | Some token \<Rightarrow>
          if token = [] then ([], Inl (Error ''Missing GH_TOKEN env var.''))
          else
            (case fetchCalendar (fetch w) token of
               (tr, Inl e) \<Rightarrow> (tr, Inl e)
             | (tr, Inr None) \<Rightarrow> (tr, Inl TypeError)
             | (tr, Inr (Some calendar)) \<Rightarrow>
                 (case renderSVG (Number_host w) calendar of
                    Inl e \<Rightarrow> (tr, Inl e)
                  | Inr svg \<Rightarrow>
                      (case writeOutput w svg of (tr', r) \<Rightarrow> (tr @ tr', r)))))"

definition main2 :: "world \<Rightarrow> event list \<times> (error + unit)" where
  "main2 w =
     (case GH_TOKEN w of
        None \<Rightarrow> ([], Inl (Error ''Missing GH_TOKEN env var.''))
      | Some token \<Rightarrow>
          if token = [] then ([], Inl (Error ''Missing GH_TOKEN env var.''))
          else
            (case fetchCalendar (fetch w) token of
               (tr, Inl e) \<Rightarrow> (tr, Inl e)
             | (tr, Inr None) \<Rightarrow> (tr, Inl TypeError)
             | (tr, Inr (Some calendar)) \<Rightarrow>
                 (case renderSVG2 calendar of
                    Inl e \<Rightarrow> (tr, Inl e)
                  | Inr svg \<Rightarrow>
                      (case writeOutput w svg of (tr', r) \<Rightarrow> (tr @ tr', r)))))"

text \<open>
  The top level, \<^verbatim>\<open>main().catch(...)\<close>: the events of the run and the exit code of
  the process. A run that raises nothing ends with code 0.
\<close>

definition program :: "world \<Rightarrow> event list \<times> nat" where
  "program w =
     (case main w of
        (tr, Inl err) \<Rightarrow> (tr @ [ConsoleError err, Exit 1], 1)
      | (tr, Inr _) \<Rightarrow> (tr, 0))"

definition program2 :: "world \<Rightarrow> event list \<times> nat" where
  "program2 w =
     (case main2 w of
        (tr, Inl err) \<Rightarrow> (tr @ [ConsoleError err, Exit 1], 1)
      | (tr, Inr _) \<Rightarrow> (tr, 0))"

subsection \<open>Notions of the specification\<close>

text \<open>
  The entity that stands for a character in escaped text, and the texts that begin
  with one of the four entities.
\<close>

definition entity_of :: "char \<Rightarrow> string" where
  "entity_of c =
     (if c = CHR ''&'' then ''&amp;''
      else if c = CHR ''<'' then ''&lt;''
      else if c = CHR ''>'' then ''&gt;''
      else if c = CHR 0x22 then ''&quot;''
      else [c])"

definition begins_entity :: "string \<Rightarrow> bool" where
  "begins_entity t =
     (prefix ''&amp;'' t \<or> prefix ''&lt;'' t \<or> prefix ''&gt;'' t \<or> prefix ''&quot;'' t)"

text \<open>The English ordinal suffix of a natural number.\<close>

definition ordinal_suffix :: "nat \<Rightarrow> string" where
  "ordinal_suffix n =
     (if n mod 100 = 11 \<or> n mod 100 = 12 \<or> n mod 100 = 13 then ''th''
      else if n mod 10 = 1 then ''st''
      else if n mod 10 = 2 then ''nd''
      else if n mod 10 = 3 then ''rd''
      else ''th'')"

text \<open>The day list of a week, and the text that one pass of the outer loop appends.\<close>

definition days_of :: "week \<Rightarrow> day list" where
  "days_of week = (case contributionDays week of None \<Rightarrow> [] | Some ds \<Rightarrow> ds)"

definition week_cells :: "(string \<Rightarrow> jsval) \<Rightarrow> nat \<Rightarrow> week \<Rightarrow> string" where
  "week_cells host x week = dayLoop host x (byWeekday (days_of week)) 0 []"

definition week_cells2 :: "nat \<Rightarrow> week \<Rightarrow> string" where
  "week_cells2 x week = dayLoop2 x (byWeekday (days_of week)) 0 []"

text \<open>
  The beginning of a document of the given width and height, up to the \<open>viewBox\<close>
  attribute, and a \<open>rect\<close> element of the grid with its position, its fill and its
  child.
\<close>

definition svg_open :: "nat \<Rightarrow> nat \<Rightarrow> string" where
  \<open>svg_open width height =
     ''<?xml version="1.0" encoding="UTF-8"?>\<newline>'' @
     ''<svg width="'' @ String_nat width @ ''" height="'' @ String_nat height @ ''"\<newline>'' @
     ''     viewBox="0 0 '' @ String_nat width @ '' '' @ String_nat height @ ''"''\<close>

definition rect_markup :: "nat \<Rightarrow> nat \<Rightarrow> string \<Rightarrow> string \<Rightarrow> string" where
  \<open>rect_markup px py fill child =
     ''\<newline>'' @
     ''  <rect x="'' @ String_nat px @ ''" y="'' @ String_nat py @
       ''" width="11" height="11" rx="2" ry="2" fill="'' @ fill @ ''">\<newline>'' @
     ''    '' @ child @ ''\<newline>'' @
     ''  </rect>''\<close>

text \<open>A text in which no character \<open>a\<close> is followed by \<open>b\<close>, and which does not end in \<open>a\<close>.\<close>

definition no_pair :: "char \<Rightarrow> char \<Rightarrow> string \<Rightarrow> bool" where
  "no_pair a b s = (\<not> sublist [a, b] s \<and> (s = [] \<or> last s \<noteq> a))"

text \<open>
  Values of the scenarios: a conversion of the host that knows no number, the day of
  the end-to-end scenario, an earlier entry for the same weekday, a day with an empty
  date and a count of 5, and a world whose API answers every request with status 401.
\<close>

definition nan_host :: "string \<Rightarrow> jsval" where
  "nan_host s = NaN"

definition march5 :: day where
  "march5 = \<lparr>date = Some ''2024-03-05'', contributionCount = Some 3, weekday = 2\<rparr>"


definition undated :: day where
  "undated = \<lparr>date = Some [], contributionCount = Some 5, weekday = 0\<rparr>"

definition unauthorized :: response where
  "unauthorized =
     \<lparr>ok = False, status = 401, body = ''Bad credentials'', parsed = Inl SyntaxError\<rparr>"

definition a_world :: "string option \<Rightarrow> world" where
  "a_world token =
     \<lparr>GH_TOKEN = token, fetch = (\<lambda>t. Inr unauthorized), cwd = ''/repo'',
      path_join = (\<lambda>a b. a @ ''/'' @ b), mkdirSync = (\<lambda>p. None),
      writeFileSync = (\<lambda>p s. None), Number_host = nan_host\<rparr>"

section \<open>Properties\<close>

subsection \<open>Quantization\<close>

lemma levelFromCount_mono:
  "0 \<le> c \<Longrightarrow> c \<le> d \<Longrightarrow> levelFromCount c \<le> levelFromCount d"
  by (simp add: levelFromCount_def)

lemma levelFromCount2_mono:
  "0 \<le> c \<Longrightarrow> c \<le> d \<Longrightarrow> levelFromCount2 c \<le> levelFromCount2 d"
  by (simp add: levelFromCount2_def)

lemma levelFromCount_onto:
  "l < length PALETTE \<Longrightarrow> \<exists>c\<ge>0. levelFromCount c = l"
proof -
  assume "l < length PALETTE"
  then consider "l = 0" | "l = 1" | "l = 2" | "l = 3" | "l = 4"
    unfolding PALETTE_def by fastforce
  then show ?thesis
  proof cases
    case 1 then show ?thesis by (intro exI [of _ 0]) (simp add: levelFromCount_def)
  next
    case 2 then show ?thesis by (intro exI [of _ 1]) (simp add: levelFromCount_def)
  next
    case 3 then show ?thesis by (intro exI [of _ 3]) (simp add: levelFromCount_def)
  next
    case 4 then show ?thesis by (intro exI [of _ 6]) (simp add: levelFromCount_def)
  next
    case 5 then show ?thesis by (intro exI [of _ 10]) (simp add: levelFromCount_def)
  qed
qed

lemma levelFromCount2_onto:
  "l < length PALETTE2 \<Longrightarrow> \<exists>c\<ge>0. levelFromCount2 c = l"
proof -
  assume "l < length PALETTE2"
  then consider "l = 0" | "l = 1" | "l = 2" | "l = 3"
    unfolding PALETTE2_def by fastforce
  then show ?thesis
  proof cases
    case 1 then show ?thesis by (intro exI [of _ 0]) (simp add: levelFromCount2_def)
  next
    case 2 then show ?thesis by (intro exI [of _ 1]) (simp add: levelFromCount2_def)
  next
    case 3 then show ?thesis by (intro exI [of _ 3]) (simp add: levelFromCount2_def)
  next
    case 4 then show ?thesis by (intro exI [of _ 7]) (simp add: levelFromCount2_def)
  qed
qed

text \<open>
  C1. In both scripts the quantization function cuts the non-negative integers into as
  many contiguous buckets as the palette has colours: the level is 0 exactly at count 0,
  it does not decrease when the count grows, it is an index of the palette, and every
  index of the palette is the level of some count. The buckets are \<open>{0}\<close>,
  \<open>{1..2}\<close>, \<open>{3..5}\<close>, \<open>{6..9}\<close>, \<open>{10..}\<close> in the first script and
  \<open>{0}\<close>, \<open>{1..2}\<close>, \<open>{3..6}\<close>, \<open>{7..}\<close> in the second.
\<close>

theorem levelFromCount_partition:
  "(\<forall>c. levelFromCount c = 0 \<longleftrightarrow> c = 0) \<and>
   (\<forall>c d. 0 \<le> c \<and> c \<le> d \<longrightarrow> levelFromCount c \<le> levelFromCount d) \<and>
   (\<forall>c\<ge>0. levelFromCount c \<le> length PALETTE - 1) \<and>
   (\<forall>l\<le>length PALETTE - 1. \<exists>c\<ge>0. levelFromCount c = l) \<and>
   (\<forall>c\<ge>0. (levelFromCount c = 1 \<longleftrightarrow> c \<in> {1..2}) \<and> (levelFromCount c = 2 \<longleftrightarrow> c \<in> {3..5}) \<and>
           (levelFromCount c = 3 \<longleftrightarrow> c \<in> {6..9}) \<and> (levelFromCount c = 4 \<longleftrightarrow> 10 \<le> c)) \<and>
   (\<forall>c. levelFromCount2 c = 0 \<longleftrightarrow> c = 0) \<and>
   (\<forall>c d. 0 \<le> c \<and> c \<le> d \<longrightarrow> levelFromCount2 c \<le> levelFromCount2 d) \<and>
   (\<forall>c\<ge>0. levelFromCount2 c \<le> length PALETTE2 - 1) \<and>
   (\<forall>l\<le>length PALETTE2 - 1. \<exists>c\<ge>0. levelFromCount2 c = l) \<and>
   (\<forall>c\<ge>0. (levelFromCount2 c = 1 \<longleftrightarrow> c \<in> {1..2}) \<and> (levelFromCount2 c = 2 \<longleftrightarrow> c \<in> {3..6}) \<and>
           (levelFromCount2 c = 3 \<longleftrightarrow> 7 \<le> c))"
proof -
  have a1: "\<forall>c. levelFromCount c = 0 \<longleftrightarrow> c = 0"
    by (simp add: levelFromCount_def)
  have a2: "\<forall>c d. 0 \<le> c \<and> c \<le> d \<longrightarrow> levelFromCount c \<le> levelFromCount d"
    using levelFromCount_mono by blast
  have a3: "\<forall>c\<ge>0. levelFromCount c \<le> length PALETTE - 1"
    by (simp add: levelFromCount_def PALETTE_def)
  have a4: "\<forall>l\<le>length PALETTE - 1. \<exists>c\<ge>0. levelFromCount c = l"
  proof (intro allI impI)
    fix l assume "l \<le> length PALETTE - 1"
    then have "l < length PALETTE" by (simp add: PALETTE_def)
    then show "\<exists>c\<ge>0. levelFromCount c = l" by (rule levelFromCount_onto)
  qed
  have a5: "\<forall>c\<ge>0. (levelFromCount c = 1 \<longleftrightarrow> c \<in> {1..2}) \<and> (levelFromCount c = 2 \<longleftrightarrow> c \<in> {3..5}) \<and>
           (levelFromCount c = 3 \<longleftrightarrow> c \<in> {6..9}) \<and> (levelFromCount c = 4 \<longleftrightarrow> 10 \<le> c)"
    by (simp add: levelFromCount_def)
  have b1: "\<forall>c. levelFromCount2 c = 0 \<longleftrightarrow> c = 0"
    by (simp add: levelFromCount2_def)
  have b2: "\<forall>c d. 0 \<le> c \<and> c \<le> d \<longrightarrow> levelFromCount2 c \<le> levelFromCount2 d"
    using levelFromCount2_mono by blast
  have b3: "\<forall>c\<ge>0. levelFromCount2 c \<le> length PALETTE2 - 1"
    by (simp add: levelFromCount2_def PALETTE2_def)
  have b4: "\<forall>l\<le>length PALETTE2 - 1. \<exists>c\<ge>0. levelFromCount2 c = l"
  proof (intro allI impI)
    fix l assume "l \<le> length PALETTE2 - 1"
    then have "l < length PALETTE2" by (simp add: PALETTE2_def)
    then show "\<exists>c\<ge>0. levelFromCount2 c = l" by (rule levelFromCount2_onto)
  qed
  have b5: "\<forall>c\<ge>0. (levelFromCount2 c = 1 \<longleftrightarrow> c \<in> {1..2}) \<and> (levelFromCount2 c = 2 \<longleftrightarrow> c \<in> {3..6}) \<and>
           (levelFromCount2 c = 3 \<longleftrightarrow> 7 \<le> c)"
    by (simp add: levelFromCount2_def)
  show ?thesis by (intro conjI a1 a2 a3 a4 a5 b1 b2 b3 b4 b5)
qed

theorem levelFromCount_partition_witness:
  "levelFromCount 0 = 0 \<and> levelFromCount 4 \<le> levelFromCount 12 \<and>
   levelFromCount 12 \<le> length PALETTE - 1 \<and> (\<exists>c\<ge>0. levelFromCount c = 4) \<and>
   levelFromCount 7 = 3 \<and>
   levelFromCount2 0 = 0 \<and> levelFromCount2 4 \<le> levelFromCount2 12 \<and>
   levelFromCount2 12 \<le> length PALETTE2 - 1 \<and> (\<exists>c\<ge>0. levelFromCount2 c = 3) \<and>
   levelFromCount2 7 = 3"
proof -
  note p = levelFromCount_partition
  note a1 = p [THEN conjunct1]
  note a2 = p [THEN conjunct2, THEN conjunct1]
  note a3 = p [THEN conjunct2, THEN conjunct2, THEN conjunct1]
  note a4 = p [THEN conjunct2, THEN conjunct2, THEN conjunct2, THEN conjunct1]
  note a5 = p [THEN conjunct2, THEN conjunct2, THEN conjunct2, THEN conjunct2, THEN conjunct1]
  note q = p [THEN conjunct2, THEN conjunct2, THEN conjunct2, THEN conjunct2, THEN conjunct2]
  note b1 = q [THEN conjunct1]
  note b2 = q [THEN conjunct2, THEN conjunct1]
  note b3 = q [THEN conjunct2, THEN conjunct2, THEN conjunct1]
  note b4 = q [THEN conjunct2, THEN conjunct2, THEN conjunct2, THEN conjunct1]
  note b5 = q [THEN conjunct2, THEN conjunct2, THEN conjunct2, THEN conjunct2]
  have l4: "(4::nat) \<le> length PALETTE - 1" by (simp add: PALETTE_def)
  have l3: "(3::nat) \<le> length PALETTE2 - 1" by (simp add: PALETTE2_def)
  have "levelFromCount 0 = 0" using a1 by simp
  moreover have "levelFromCount 4 \<le> levelFromCount 12" using a2 by simp
  moreover have "levelFromCount 12 \<le> length PALETTE - 1" using a3 by simp
  moreover have "\<exists>c\<ge>0. levelFromCount c = 4" using a4 l4 by blast
  moreover have "levelFromCount 7 = 3" using a5 by simp
  moreover have "levelFromCount2 0 = 0" using b1 by simp
  moreover have "levelFromCount2 4 \<le> levelFromCount2 12" using b2 by simp
  moreover have "levelFromCount2 12 \<le> length PALETTE2 - 1" using b3 by simp
  moreover have "\<exists>c\<ge>0. levelFromCount2 c = 3" using b4 l3 by blast
  moreover have "levelFromCount2 7 = 3" using b5 by simp
  ultimately show ?thesis by (intro conjI)
qed

subsection \<open>Normalization of the week list\<close>

lemma unshiftLoop_replicate:
  "unshiftLoop pw = replicate (WEEKS - length pw) \<lparr>contributionDays = Some []\<rparr> @ pw"
proof (induction pw rule: unshiftLoop.induct)
  case (1 pw)
  show ?case
  proof (cases "length pw < WEEKS")
    case True
    then have "WEEKS - length pw = Suc (WEEKS - Suc (length pw))" by simp
    with True "1.IH" show ?thesis
      by (subst unshiftLoop.simps) (simp add: replicate_app_Cons_same)
  next
    case False
    then show ?thesis by (subst unshiftLoop.simps) simp
  qed
qed

lemma paddedWeeks_short:
  "length ws < WEEKS \<Longrightarrow>
   paddedWeeks ws = replicate (WEEKS - length ws) \<lparr>contributionDays = Some []\<rparr> @ ws"
  by (simp add: paddedWeeks_def unshiftLoop_replicate Let_def)

lemma paddedWeeks_long:
  "WEEKS \<le> length ws \<Longrightarrow> paddedWeeks ws = drop (length ws - WEEKS) ws"
  by (simp add: paddedWeeks_def unshiftLoop_replicate Let_def)

lemma length_paddedWeeks: "length (paddedWeeks ws) = WEEKS"
  by (cases "length ws < WEEKS") (simp_all add: paddedWeeks_short paddedWeeks_long)

text \<open>
  C2. The week list that the renderer walks has exactly 53 weeks, whatever the length
  \<open>L\<close> of the input (in particular for \<open>0 \<le> L \<le> 200\<close>). When \<open>L < 53\<close> it is the
  input with \<open>53 - L\<close> empty weeks (weeks of zero days) in front; when \<open>L > 53\<close> it is
  the last 53 weeks of the input.
\<close>

theorem paddedWeeks_normalizes:
  "length (paddedWeeks ws) = 53 \<and>
   (length ws < 53 \<longrightarrow>
      paddedWeeks ws = replicate (53 - length ws) \<lparr>contributionDays = Some []\<rparr> @ ws) \<and>
   (53 < length ws \<longrightarrow> paddedWeeks ws = drop (length ws - 53) ws)"
  using length_paddedWeeks [of ws] paddedWeeks_short [of ws] paddedWeeks_long [of ws]
  by (simp add: WEEKS_def)

theorem paddedWeeks_normalizes_witness:
  "length (paddedWeeks []) = 53 \<and>
   paddedWeeks [] = replicate 53 \<lparr>contributionDays = Some []\<rparr> \<and>
   length (paddedWeeks (replicate 52 \<lparr>contributionDays = None\<rparr>)) = 53 \<and>
   paddedWeeks (replicate 52 \<lparr>contributionDays = None\<rparr>) =
     \<lparr>contributionDays = Some []\<rparr> # replicate 52 \<lparr>contributionDays = None\<rparr> \<and>
   length (paddedWeeks (replicate 147 \<lparr>contributionDays = Some []\<rparr> @
                        replicate 53 \<lparr>contributionDays = None\<rparr>)) = 53 \<and>
   paddedWeeks (replicate 147 \<lparr>contributionDays = Some []\<rparr> @
                replicate 53 \<lparr>contributionDays = None\<rparr>) =
     replicate 53 \<lparr>contributionDays = None\<rparr>"
  using paddedWeeks_normalizes [of "[]"]
    paddedWeeks_normalizes [of "replicate 52 \<lparr>contributionDays = None\<rparr>"]
    paddedWeeks_normalizes [of "replicate 147 \<lparr>contributionDays = Some []\<rparr> @
                                replicate 53 \<lparr>contributionDays = None\<rparr>"]
  by simp

subsection \<open>Escaping\<close>

lemma replaceAll_Nil: "replaceAll c r [] = []"
  by (simp add: replaceAll_def)

lemma replaceAll_Cons:
  "replaceAll c r (x # s) = (if x = c then r else [x]) @ replaceAll c r s"
  by (simp add: replaceAll_def)

lemma replaceAll_append:
  "replaceAll c r (s @ t) = replaceAll c r s @ replaceAll c r t"
  by (simp add: replaceAll_def)

lemma svgEscape_Nil: "svgEscape [] = []"
  by (simp add: svgEscape_def replaceAll_Nil)

lemma svgEscape_Cons: "svgEscape (c # s) = entity_of c @ svgEscape s"
  by (simp add: svgEscape_def entity_of_def replaceAll_Cons replaceAll_append replaceAll_Nil)

lemma svgEscape_concat: "svgEscape s = concat (map entity_of s)"
  by (induction s) (simp_all add: svgEscape_Nil svgEscape_Cons)

lemma entity_of_no_raw:
  "CHR ''<'' \<notin> set (entity_of c) \<and> CHR ''>'' \<notin> set (entity_of c) \<and> CHR 0x22 \<notin> set (entity_of c)"
  by (simp add: entity_of_def)

lemma svgEscape_no_raw:
  "CHR ''<'' \<notin> set (svgEscape s) \<and> CHR ''>'' \<notin> set (svgEscape s) \<and> CHR 0x22 \<notin> set (svgEscape s)"
  using entity_of_no_raw by (induction s) (simp_all add: svgEscape_Nil svgEscape_Cons)

lemma entity_of_amp:
  "i < length (entity_of c) \<Longrightarrow> entity_of c ! i = CHR ''&'' \<Longrightarrow>
   i = 0 \<and> begins_entity (entity_of c @ t)"
proof -
  assume i: "i < length (entity_of c)" and a: "entity_of c ! i = CHR ''&''"
  consider "c = CHR ''&''" | "c = CHR ''<''" | "c = CHR ''>''" | "c = CHR 0x22"
    | "entity_of c = [c]" "c \<noteq> CHR ''&''"
    by (cases "c = CHR ''&''"; cases "c = CHR ''<''"; cases "c = CHR ''>''";
        cases "c = CHR 0x22"; simp add: entity_of_def)
  then show ?thesis
  proof cases
    case 1
    with i a show ?thesis
      by (cases i rule: nat.exhaust; simp add: entity_of_def begins_entity_def nth_Cons split: nat.splits)
  next
    case 2
    with i a show ?thesis
      by (simp add: entity_of_def begins_entity_def nth_Cons split: nat.splits)
  next
    case 3
    with i a show ?thesis
      by (simp add: entity_of_def begins_entity_def nth_Cons split: nat.splits)
  next
    case 4
    with i a show ?thesis
      by (simp add: entity_of_def begins_entity_def nth_Cons split: nat.splits)
  next
    case 5
    with i a show ?thesis by simp
  qed
qed

lemma svgEscape_amp:
  "i < length (svgEscape s) \<Longrightarrow> svgEscape s ! i = CHR ''&'' \<Longrightarrow>
   begins_entity (drop i (svgEscape s))"
proof (induction s arbitrary: i)
  case Nil
  then show ?case by (simp add: svgEscape_Nil)
next
  case (Cons c s)
  show ?case
  proof (cases "i < length (entity_of c)")
    case True
    with Cons.prems have "entity_of c ! i = CHR ''&''"
      by (simp add: svgEscape_Cons nth_append)
    with True have "i = 0 \<and> begins_entity (entity_of c @ svgEscape s)"
      by (rule entity_of_amp)
    then show ?thesis by (simp add: svgEscape_Cons)
  next
    case False
    with Cons.prems have "i - length (entity_of c) < length (svgEscape s)"
      and "svgEscape s ! (i - length (entity_of c)) = CHR ''&''"
      by (simp_all add: svgEscape_Cons nth_append)
    then have "begins_entity (drop (i - length (entity_of c)) (svgEscape s))"
      by (rule Cons.IH)
    with False show ?thesis by (simp add: svgEscape_Cons)
  qed
qed

text \<open>
  C4. Escaping replaces every character by its entity, in order: \<open>&\<close>, \<open><\<close>,
  \<open>>\<close> and the double quote by \<open>&amp;\<close>, \<open>&lt;\<close>, \<open>&gt;\<close> and
  \<open>&quot;\<close>, every other character by itself. So for every string the escaped text
  has no raw \<open><\<close>, \<open>>\<close> or double quote, and every \<open>&\<close> in it begins one of
  the four entities.
\<close>

theorem svgEscape_entities:
  "svgEscape s = concat (map entity_of s) \<and>
   CHR ''<'' \<notin> set (svgEscape s) \<and> CHR ''>'' \<notin> set (svgEscape s) \<and>
   CHR 0x22 \<notin> set (svgEscape s) \<and>
   (\<forall>i<length (svgEscape s). svgEscape s ! i = CHR ''&'' \<longrightarrow>
      begins_entity (drop i (svgEscape s)))"
  using svgEscape_concat [of s] svgEscape_no_raw [of s] svgEscape_amp [of _ s] by blast

theorem svgEscape_entities_witness:
  "svgEscape (''a&b<c>d'' @ [CHR 0x22] @ ''&lt;'') = ''a&amp;b&lt;c&gt;d&quot;&amp;lt;'' \<and>
   svgEscape (''a&b<c>d'' @ [CHR 0x22] @ ''&lt;'') ! 1 = CHR ''&'' \<and>
   begins_entity (drop 1 (svgEscape (''a&b<c>d'' @ [CHR 0x22] @ ''&lt;'')))"
proof -
  let ?s = "''a&b<c>d'' @ [CHR 0x22] @ ''&lt;''"
  note t = svgEscape_entities [of ?s]
  have e: "svgEscape ?s = ''a&amp;b&lt;c&gt;d&quot;&amp;lt;''"
    using t by (simp add: entity_of_def)
  have n: "svgEscape ?s ! 1 = CHR ''&''" "1 < length (svgEscape ?s)"
    unfolding e by simp_all
  with t have "begins_entity (drop 1 (svgEscape ?s))" by blast
  with e n show ?thesis by blast
qed

subsection \<open>Ordinals\<close>

lemma digit_cases:
  "k < (10::nat) \<Longrightarrow> k = 0 \<or> k = 1 \<or> k = 2 \<or> k = 3 \<or> k = 4 \<or> k = 5 \<or> k = 6 \<or> k = 7 \<or> k = 8 \<or> k = 9"
  by arith

lemma digit_char:
  assumes "k < (10::nat)"
  shows "(char_of (48 + k) = CHR ''1'' \<longleftrightarrow> k = 1) \<and>
         (char_of (48 + k) = CHR ''2'' \<longleftrightarrow> k = 2) \<and>
         (char_of (48 + k) = CHR ''3'' \<longleftrightarrow> k = 3) \<and>
         char_of (48 + k) \<noteq> CHR ''-''"
  using digit_cases [OF assms] by (elim disjE) (simp_all add: char_of_def bit_Suc_0_iff)

lemma String_nat_snoc:
  "String_nat n = (if n < 10 then [] else String_nat (n div 10)) @ [char_of (48 + n mod 10)]"
  by (subst String_nat.simps) simp

lemma String_nat_not_Nil: "String_nat n \<noteq> []"
  by (subst String_nat.simps) simp

lemma suffix1: "suffix [a] (p @ [b]) \<longleftrightarrow> a = b"
  by (auto simp: suffix_def)

lemma suffix2: "suffix [a, a'] (p @ [b]) \<longleftrightarrow> a' = b \<and> suffix [a] p"
  by (auto simp: suffix_def Cons_eq_append_conv append_eq_append_conv2 snoc_eq_iff_butlast)

lemma endsWith_nat_1:
  "(endsWith (String_nat n) ''1'' \<longleftrightarrow> n mod 10 = 1) \<and>
   (endsWith (String_nat n) ''2'' \<longleftrightarrow> n mod 10 = 2) \<and>
   (endsWith (String_nat n) ''3'' \<longleftrightarrow> n mod 10 = 3)"
proof -
  have "n mod 10 < 10" by simp
  note d = digit_char [OF this]
  have c: "CHR ''1'' = char_of (48 + n mod 10) \<longleftrightarrow> n mod 10 = 1"
    "CHR ''2'' = char_of (48 + n mod 10) \<longleftrightarrow> n mod 10 = 2"
    "CHR ''3'' = char_of (48 + n mod 10) \<longleftrightarrow> n mod 10 = 3"
    using d [THEN conjunct1] d [THEN conjunct2, THEN conjunct1]
      d [THEN conjunct2, THEN conjunct2, THEN conjunct1]
    by (simp_all only: eq_commute [of "char_of (48 + n mod 10)"])
  obtain p where p: "String_nat n = p @ [char_of (48 + n mod 10)]"
    using String_nat_snoc [of n] by blast
  show ?thesis
    unfolding endsWith_def p suffix1 c by (intro conjI refl)
qed

lemma two_digits:
  "a < 10 \<Longrightarrow> b < 10 \<Longrightarrow> d < 10 \<Longrightarrow> 10 * a + b = 10 + d \<longleftrightarrow> a = 1 \<and> b = (d::nat)"
  by arith

lemma mod_100_digits:
  assumes "d < 10"
  shows "(n::nat) mod 100 = 10 + d \<longleftrightarrow> 10 \<le> n \<and> n div 10 mod 10 = 1 \<and> n mod 10 = d"
proof -
  have e: "n mod 100 = 10 * (n div 10 mod 10) + n mod 10"
    using mod_mult2_eq [of n 10 10] by simp
  have t: "10 * (n div 10 mod 10) + n mod 10 = 10 + d \<longleftrightarrow> n div 10 mod 10 = 1 \<and> n mod 10 = d"
    by (rule two_digits) (simp_all add: assms)
  have g: "n div 10 mod 10 = 1 \<Longrightarrow> 10 \<le> n"
    by (cases "n < 10") simp_all
  show ?thesis
    unfolding e t using g by blast
qed
lemma endsWith_nat_2:
  "(endsWith (String_nat n) ''11'' \<longleftrightarrow> n mod 100 = 11) \<and>
   (endsWith (String_nat n) ''12'' \<longleftrightarrow> n mod 100 = 12) \<and>
   (endsWith (String_nat n) ''13'' \<longleftrightarrow> n mod 100 = 13)"
proof -
  have d: "n mod 10 < 10" by simp
  have m: "n mod 100 = 11 \<longleftrightarrow> 10 \<le> n \<and> n div 10 mod 10 = 1 \<and> n mod 10 = 1"
    "n mod 100 = 12 \<longleftrightarrow> 10 \<le> n \<and> n div 10 mod 10 = 1 \<and> n mod 10 = 2"
    "n mod 100 = 13 \<longleftrightarrow> 10 \<le> n \<and> n div 10 mod 10 = 1 \<and> n mod 10 = 3"
    using mod_100_digits [of 1 n] mod_100_digits [of 2 n] mod_100_digits [of 3 n] by simp_all
  have p: "suffix ''1'' (if n < 10 then [] else String_nat (n div 10)) \<longleftrightarrow>
             10 \<le> n \<and> n div 10 mod 10 = 1"
    using endsWith_nat_1 [of "n div 10"] by (simp add: endsWith_def)
  note dc = digit_char [OF d]
  have c: "CHR ''1'' = char_of (48 + n mod 10) \<longleftrightarrow> n mod 10 = 1"
    "CHR ''2'' = char_of (48 + n mod 10) \<longleftrightarrow> n mod 10 = 2"
    "CHR ''3'' = char_of (48 + n mod 10) \<longleftrightarrow> n mod 10 = 3"
    using dc [THEN conjunct1] dc [THEN conjunct2, THEN conjunct1]
      dc [THEN conjunct2, THEN conjunct2, THEN conjunct1]
    by (simp_all only: eq_commute [of "char_of (48 + n mod 10)"])
  have s: "String_nat n = (if n < 10 then [] else String_nat (n div 10)) @ [char_of (48 + n mod 10)]"
    by (rule String_nat_snoc)
  show ?thesis
    unfolding endsWith_def m by (subst (1 2 3) s) (simp only: suffix2 p c, blast)
qed

lemma endsWith_int:
  "t \<noteq> [] \<Longrightarrow> hd t \<noteq> CHR ''-'' \<Longrightarrow>
   endsWith (String_int i) t \<longleftrightarrow> endsWith (String_nat (nat \<bar>i\<bar>)) t"
  by (cases t) (auto simp: endsWith_def String_int_def suffix_Cons)

lemma ordinal_Num: "ordinal (Num i) = String_int i @ ordinal_suffix (nat \<bar>i\<bar>)"
  using endsWith_nat_1 [of "nat \<bar>i\<bar>"] endsWith_nat_2 [of "nat \<bar>i\<bar>"]
  by (simp add: ordinal_def ordinal_suffix_def endsWith_int Let_def)

text \<open>
  C5. \<open>ordinal\<close> gives 1st, 2nd, 3rd, 11th, 12th, 13th, 21st and 4th. In general
  it appends to the number's text \<open>th\<close> when the text ends in 11, 12 or 13,
  otherwise \<open>st\<close>, \<open>nd\<close> or \<open>rd\<close> when it ends in 1, 2 or 3, and \<open>th\<close>
  in every other case. For an integer of absolute value at most \<open>2 ^ 53\<close>, whose
  text is its decimal digits, that is the English suffix of its absolute value:
  \<open>th\<close> when it is 11, 12 or 13 modulo 100, otherwise by its last digit.
\<close>

theorem ordinal_suffixes:
  "ordinal (Num 1) = ''1st'' \<and> ordinal (Num 2) = ''2nd'' \<and> ordinal (Num 3) = ''3rd'' \<and>
   ordinal (Num 11) = ''11th'' \<and> ordinal (Num 12) = ''12th'' \<and>
   ordinal (Num 13) = ''13th'' \<and> ordinal (Num 21) = ''21st'' \<and>
   ordinal (Num 4) = ''4th'' \<and>
   (\<forall>v. ordinal v = String_of v @
      (if endsWith (String_of v) ''11'' \<or> endsWith (String_of v) ''12'' \<or>
          endsWith (String_of v) ''13'' then ''th''
       else if endsWith (String_of v) ''1'' then ''st''
       else if endsWith (String_of v) ''2'' then ''nd''
       else if endsWith (String_of v) ''3'' then ''rd''
       else ''th'')) \<and>
   (\<forall>n. \<bar>n\<bar> \<le> 2 ^ 53 \<longrightarrow>
      ordinal (Num n) = String_int n @ ordinal_suffix (nat \<bar>n\<bar>))"
proof -
  have ex: "String_int 1 = ''1''" "String_int 2 = ''2''" "String_int 3 = ''3''"
    "String_int 4 = ''4''" "String_int 11 = ''11''" "String_int 12 = ''12''"
    "String_int 13 = ''13''" "String_int 21 = ''21''"
    by (simp_all add: String_int_def String_nat.simps char_of_def bit_Suc_0_iff)
  have rep: "\<forall>v. ordinal v = String_of v @
      (if endsWith (String_of v) ''11'' \<or> endsWith (String_of v) ''12'' \<or>
          endsWith (String_of v) ''13'' then ''th''
       else if endsWith (String_of v) ''1'' then ''st''
       else if endsWith (String_of v) ''2'' then ''nd''
       else if endsWith (String_of v) ''3'' then ''rd''
       else ''th'')"
    by (simp add: ordinal_def Let_def)
  have "ordinal (Num 1) = ''1st''" "ordinal (Num 2) = ''2nd''" "ordinal (Num 3) = ''3rd''"
    "ordinal (Num 11) = ''11th''" "ordinal (Num 12) = ''12th''" "ordinal (Num 13) = ''13th''"
    "ordinal (Num 21) = ''21st''" "ordinal (Num 4) = ''4th''"
    by (simp_all add: ordinal_Num ex ordinal_suffix_def)
  with rep ordinal_Num show ?thesis by (intro conjI allI impI) simp_all
qed

theorem ordinal_suffixes_witness:
  "ordinal (Num 22) = ''22nd'' \<and> ordinal (Num 31) = ''31st'' \<and>
   ordinal (Num 23) = ''23rd'' \<and> ordinal (Num 111) = ''111th'' \<and>
   ordinal (Num 30) = ''30th''"
proof -
  note t = ordinal_suffixes [THEN conjunct2, THEN conjunct2, THEN conjunct2, THEN conjunct2,
      THEN conjunct2, THEN conjunct2, THEN conjunct2, THEN conjunct2, THEN conjunct2]
  have s: "String_int 22 = ''22''" "String_int 31 = ''31''" "String_int 23 = ''23''"
    "String_int 111 = ''111''" "String_int 30 = ''30''"
    by (simp_all add: String_int_def String_nat.simps char_of_def bit_Suc_0_iff)
  have "ordinal (Num 22) = ''22nd''"
    using t [rule_format, of 22] by (simp add: s ordinal_suffix_def)
  moreover have "ordinal (Num 31) = ''31st''"
    using t [rule_format, of 31] by (simp add: s ordinal_suffix_def)
  moreover have "ordinal (Num 23) = ''23rd''"
    using t [rule_format, of 23] by (simp add: s ordinal_suffix_def)
  moreover have "ordinal (Num 111) = ''111th''"
    using t [rule_format, of 111] by (simp add: s ordinal_suffix_def)
  moreover have "ordinal (Num 30) = ''30th''"
    using t [rule_format, of 30] by (simp add: s ordinal_suffix_def)
  ultimately show ?thesis by (intro conjI)
qed

subsection \<open>The loops as concatenations\<close>

lemma dayLoop_concat:
  "dayLoop host x byW y rects =
     rects @ concat (map (\<lambda>y. cell host x y (byW (int y))) [y..<DAYS])"
proof (induction host x byW y rects rule: dayLoop.induct)
  case (1 host x byW y rects)
  show ?case
  proof (cases "y < DAYS")
    case True
    with "1.IH" show ?thesis
      by (subst dayLoop.simps) (simp add: upt_conv_Cons)
  next
    case False
    then show ?thesis by (subst dayLoop.simps) simp
  qed
qed

lemma dayLoop2_concat:
  "dayLoop2 x byW y rects =
     rects @ concat (map (\<lambda>y. cell2 x y (byW (int y))) [y..<DAYS])"
proof (induction x byW y rects rule: dayLoop2.induct)
  case (1 x byW y rects)
  show ?case
  proof (cases "y < DAYS")
    case True
    with "1.IH" show ?thesis
      by (subst dayLoop2.simps) (simp add: upt_conv_Cons)
  next
    case False
    then show ?thesis by (subst dayLoop2.simps) simp
  qed
qed

lemma dayLoop_acc: "dayLoop host x byW 0 rects = rects @ dayLoop host x byW 0 []"
  by (simp add: dayLoop_concat)

lemma dayLoop2_acc: "dayLoop2 x byW 0 rects = rects @ dayLoop2 x byW 0 []"
  by (simp add: dayLoop2_concat)

lemma weekLoop_concat:
  "WEEKS \<le> length pw \<Longrightarrow>
   weekLoop host pw x rects =
     Inr (rects @ concat (map (\<lambda>x. week_cells host x (pw ! x)) [x..<WEEKS]))"
proof (induction host pw x rects rule: weekLoop.induct)
  case (1 host pw x rects)
  show ?case
  proof (cases "x < WEEKS")
    case True
    with "1.prems" have "x < length pw" by simp
    with True "1.IH" "1.prems" show ?thesis
      by (subst weekLoop.simps)
         (simp add: upt_conv_Cons week_cells_def days_of_def Let_def dayLoop_acc [of _ _ _ rects])
  next
    case False
    then show ?thesis by (subst weekLoop.simps) simp
  qed
qed

lemma weekLoop2_concat:
  "WEEKS \<le> length pw \<Longrightarrow>
   weekLoop2 pw x rects =
     Inr (rects @ concat (map (\<lambda>x. week_cells2 x (pw ! x)) [x..<WEEKS]))"
proof (induction pw x rects rule: weekLoop2.induct)
  case (1 pw x rects)
  show ?case
  proof (cases "x < WEEKS")
    case True
    with "1.prems" have "x < length pw" by simp
    with True "1.IH" "1.prems" show ?thesis
      by (subst weekLoop2.simps)
         (simp add: upt_conv_Cons week_cells2_def days_of_def Let_def dayLoop2_acc [of _ _ rects])
  next
    case False
    then show ?thesis by (subst weekLoop2.simps) simp
  qed
qed

text \<open>A week list that is too short makes the outer loop raise; the padded list never is.\<close>

lemma weekLoop_short: "length pw < WEEKS \<Longrightarrow> x \<le> length pw \<Longrightarrow> weekLoop host pw x rects = Inl TypeError"
proof (induction host pw x rects rule: weekLoop.induct)
  case (1 host pw x rects)
  show ?case
  proof (cases "x < length pw")
    case True
    with "1.prems" "1.IH" show ?thesis
      by (subst weekLoop.simps) (simp add: Let_def)
  next
    case False
    with "1.prems" show ?thesis by (subst weekLoop.simps) simp
  qed
qed

lemma weekLoop_padded:
  "weekLoop host (paddedWeeks ws) 0 [] =
     Inr (concat (map (\<lambda>x. week_cells host x (paddedWeeks ws ! x)) [0..<WEEKS]))"
  using weekLoop_concat [of "paddedWeeks ws" host 0 "[]"] by (simp add: length_paddedWeeks)

lemma weekLoop2_padded:
  "weekLoop2 (paddedWeeks ws) 0 [] =
     Inr (concat (map (\<lambda>x. week_cells2 x (paddedWeeks ws ! x)) [0..<WEEKS]))"
  using weekLoop2_concat [of "paddedWeeks ws" 0 "[]"] by (simp add: length_paddedWeeks)

subsection \<open>Dimensions\<close>

lemma grid_size:
  "PAD_X * 2 + WEEKS * CELL + (WEEKS - 1) * GAP = 707"
  "PAD_Y * 2 + DAYS * CELL + (DAYS - 1) * GAP = 109"
  "HEADER_HEIGHT + 109 + LEGEND_HEIGHT = 161"
  by (simp_all add: PAD_X_def PAD_Y_def WEEKS_def DAYS_def CELL_def GAP_def
      HEADER_HEIGHT_def LEGEND_HEIGHT_def)

lemma String_nat_sizes:
  "String_nat 707 = ''707''" "String_nat 161 = ''161''" "String_nat 109 = ''109''"
  by (simp_all add: String_nat.simps char_of_def bit_Suc_0_iff)

lemma renderSVG_open:
  "\<exists>s. renderSVG host cal = Inr s \<and> prefix (svg_open 707 161) s"
  unfolding renderSVG_def Let_def weekLoop_padded grid_size sum.case svg_open_def
  by simp

lemma renderSVG2_open:
  "\<exists>s. renderSVG2 cal = Inr s \<and> prefix (svg_open 707 109) s"
  unfolding renderSVG2_def Let_def weekLoop2_padded grid_size sum.case svg_open_def
  by simp

text \<open>
  C7. For every calendar the renderer returns a document, and the document begins with
  the same text up to the \<open>viewBox\<close> attribute: width 707 and height 161 in the first
  script, width 707 and height 109 in the second. The dimensions come from the layout
  constants alone.
\<close>

theorem dimensions_constant:
  "(\<exists>s. renderSVG host cal = Inr s \<and> prefix (svg_open 707 161) s) \<and>
   (\<exists>s. renderSVG2 cal = Inr s \<and> prefix (svg_open 707 109) s) \<and>
   String_nat 707 = ''707'' \<and> String_nat 161 = ''161'' \<and> String_nat 109 = ''109''"
  using renderSVG_open [of host cal] renderSVG2_open [of cal] String_nat_sizes by blast

subsection \<open>The map from weekday to day\<close>















subsection \<open>The end-to-end scenario\<close>

lemma String_nat_small: "String_nat 11 = ''11''" "String_nat 2 = ''2''"
  by (simp_all add: String_nat.simps char_of_def bit_Suc_0_iff)

lemma String_int_not_Nil: "String_int i \<noteq> []"
  by (simp add: String_int_def String_nat_not_Nil)

lemma formatTooltipDate_not_Nil: "dateStr \<noteq> [] \<Longrightarrow> formatTooltipDate host dateStr count \<noteq> []"
  by (simp add: formatTooltipDate_def Let_def String_int_not_Nil)

lemma cell_markup:
  "cell host x y day =
     rect_markup (PAD_X + x * (CELL + GAP)) (gridOffsetY + y * (CELL + GAP))
       (palette_at PALETTE (levelFromCount (count_of day)))
       (if date_of day \<noteq> []
        then ''<title>'' @ svgEscape (formatTooltipDate host (date_of day) (count_of day)) @ ''</title>''
        else [])"
  by (simp add: cell_def rect_markup_def Let_def CELL_def String_nat_small formatTooltipDate_not_Nil)

lemma cell2_markup:
  "cell2 x y day =
     rect_markup (PAD_X + x * (CELL + GAP)) (PAD_Y + y * (CELL + GAP))
       (palette_at PALETTE2 (levelFromCount2 (count_of day)))
       (if date_of day \<noteq> []
        then ''<title>'' @ svgEscape (date_of day @ '': '' @ String_int (count_of day) @
               '' contribution'' @ (if count_of day = 1 then [] else ''s'')) @ ''</title>''
        else [])"
  by (simp add: cell2_def rect_markup_def Let_def CELL_def String_nat_small)

lemma tooltip_example:
  "formatTooltipDate host ''2024-03-05'' 3 = ''3 contributions on March 5th''"
  by (simp add: formatTooltipDate_def Let_def Number_str_def is_digit_def decimal_def element_def
      MONTHS_def ordinal_Num ordinal_suffix_def String_int_def String_nat.simps char_of_def bit_Suc_0_iff)

lemma sublist_concat_map: "x \<in> set xs \<Longrightarrow> sublist (f x) (concat (map f xs))"
proof -
  assume "x \<in> set xs"
  then obtain as bs where "xs = as @ x # bs" by (auto dest: split_list)
  then have "concat (map f xs) = concat (map f as) @ f x @ concat (map f bs)" by simp
  then show ?thesis by (simp only: sublist_appendI)
qed

lemma sublist_trans: "sublist xs ys \<Longrightarrow> sublist ys zs \<Longrightarrow> sublist xs zs"
  by (rule sublist_order.order_trans)

lemma sublist_skip: "sublist xs zs \<Longrightarrow> sublist xs (ys @ zs)"
  by (metis sublist_appendI sublist_trans sublist_append_leftI)

lemma cell_in_week:
  "y < DAYS \<Longrightarrow>
   sublist (cell host x y (byWeekday (days_of w) (int y))) (week_cells host x w)"
  using sublist_concat_map [of y "[0..<DAYS]" "\<lambda>y. cell host x y (byWeekday (days_of w) (int y))"]
  by (simp add: week_cells_def dayLoop_concat)

lemma cell2_in_week:
  "y < DAYS \<Longrightarrow>
   sublist (cell2 x y (byWeekday (days_of w) (int y))) (week_cells2 x w)"
  using sublist_concat_map [of y "[0..<DAYS]" "\<lambda>y. cell2 x y (byWeekday (days_of w) (int y))"]
  by (simp add: week_cells2_def dayLoop2_concat)

lemma week_in_rects:
  assumes "x < WEEKS"
  shows "sublist (week_cells host x (pw ! x))
           (concat (map (\<lambda>x. week_cells host x (pw ! x)) [0..<WEEKS]))"
    and "sublist (week_cells2 x (pw ! x))
           (concat (map (\<lambda>x. week_cells2 x (pw ! x)) [0..<WEEKS]))"
  using assms sublist_concat_map [of x "[0..<WEEKS]" "\<lambda>x. week_cells host x (pw ! x)"]
    sublist_concat_map [of x "[0..<WEEKS]" "\<lambda>x. week_cells2 x (pw ! x)"] by simp_all

lemma rects_in_renderSVG:
  "\<exists>s. renderSVG host cal = Inr s \<and>
       sublist (concat (map (\<lambda>x. week_cells host x (paddedWeeks (weeks cal) ! x)) [0..<WEEKS])) s"
  unfolding renderSVG_def Let_def weekLoop_padded sum.case
  by (rule exI, rule conjI, rule refl) (rule sublist_append_rightI | rule sublist_skip)+

lemma rects_in_renderSVG2:
  "\<exists>s. renderSVG2 cal = Inr s \<and>
       sublist (concat (map (\<lambda>x. week_cells2 x (paddedWeeks (weeks cal) ! x)) [0..<WEEKS])) s"
  unfolding renderSVG2_def Let_def weekLoop2_padded sum.case
  by (rule exI, rule conjI, rule refl) (rule sublist_append_rightI | rule sublist_skip)+

lemma march5_cell:
  "cell host 52 2 (Some march5) =
     rect_markup 686 60 (PALETTE ! levelFromCount 3) ''<title>3 contributions on March 5th</title>''"
  by (simp add: cell_markup march5_def count_of_def date_of_def tooltip_example palette_at_def
      levelFromCount_def PALETTE_def PAD_X_def CELL_def GAP_def gridOffsetY_def HEADER_HEIGHT_def
      PAD_Y_def svgEscape_concat entity_of_def)

lemma march5_cell2:
  "cell2 52 2 (Some march5) =
     rect_markup 686 36 (PALETTE2 ! levelFromCount2 3) ''<title>2024-03-05: 3 contributions</title>''"
  by (simp add: cell2_markup march5_def count_of_def date_of_def palette_at_def
      levelFromCount2_def PALETTE2_def PAD_X_def CELL_def GAP_def PAD_Y_def svgEscape_concat
      entity_of_def String_int_def String_nat.simps char_of_def bit_Suc_0_iff)

lemma march5_padded:
  "paddedWeeks [\<lparr>contributionDays = Some [march5]\<rparr>] ! 52 = \<lparr>contributionDays = Some [march5]\<rparr>"
  by (simp add: paddedWeeks_short WEEKS_def nth_append)

lemma march5_byWeekday: "byWeekday [march5] (int 2) = Some march5"
  by (simp add: byWeekday_def march5_def)

text \<open>
  C6. For the calendar of one week whose only day is 2024-03-05 with count 3 and weekday
  2 (whatever the total), the markup of the first script contains the cell at column 52,
  row 2, with fill \<open>PALETTE[levelFromCount(3)]\<close> and the title
  \<open>3 contributions on March 5th\<close>; the markup of the second script contains the cell
  with fill \<open>PALETTE[levelFromCount(3)]\<close> of its palette and the title
  \<open>2024-03-05: 3 contributions\<close>.
\<close>

theorem single_day_scenario:
  "(\<exists>s. renderSVG host \<lparr>weeks = [\<lparr>contributionDays = Some [march5]\<rparr>], totalContributions = t\<rparr> = Inr s \<and>
        sublist (rect_markup 686 60 (PALETTE ! levelFromCount 3)
                   ''<title>3 contributions on March 5th</title>'') s) \<and>
   (\<exists>s. renderSVG2 \<lparr>weeks = [\<lparr>contributionDays = Some [march5]\<rparr>], totalContributions = t\<rparr> = Inr s \<and>
        sublist (rect_markup 686 36 (PALETTE2 ! levelFromCount2 3)
                   ''<title>2024-03-05: 3 contributions</title>'') s) \<and>
   PALETTE ! levelFromCount 3 = ''#C8D9AA'' \<and> PALETTE2 ! levelFromCount2 3 = ''#C0D9BA''"
proof -
  let ?w = "\<lparr>contributionDays = Some [march5]\<rparr>"
  let ?cal = "\<lparr>weeks = [?w], totalContributions = t\<rparr>"
  have d: "(2::nat) < DAYS" and x: "(52::nat) < WEEKS" by (simp_all add: DAYS_def WEEKS_def)
  have b: "byWeekday (days_of ?w) (int 2) = Some march5"
    using march5_byWeekday by (simp add: days_of_def)
  have p: "paddedWeeks (weeks ?cal) ! 52 = ?w" using march5_padded by simp
  obtain s where s: "renderSVG host ?cal = Inr s"
    "sublist (concat (map (\<lambda>x. week_cells host x (paddedWeeks (weeks ?cal) ! x)) [0..<WEEKS])) s"
    using rects_in_renderSVG [of host ?cal] by blast
  have "sublist (cell host 52 2 (Some march5)) (week_cells host 52 ?w)"
    using cell_in_week [OF d, of host 52 ?w] unfolding b .
  also have "sublist (week_cells host 52 ?w)
      (concat (map (\<lambda>x. week_cells host x (paddedWeeks (weeks ?cal) ! x)) [0..<WEEKS]))"
    using week_in_rects(1) [OF x, of host "paddedWeeks (weeks ?cal)"] unfolding p .
  also note s(2)
  finally have 1: "sublist (rect_markup 686 60 (PALETTE ! levelFromCount 3)
                   ''<title>3 contributions on March 5th</title>'') s"
    unfolding march5_cell .
  obtain s2 where s2: "renderSVG2 ?cal = Inr s2"
    "sublist (concat (map (\<lambda>x. week_cells2 x (paddedWeeks (weeks ?cal) ! x)) [0..<WEEKS])) s2"
    using rects_in_renderSVG2 [of ?cal] by blast
  have "sublist (cell2 52 2 (Some march5)) (week_cells2 52 ?w)"
    using cell2_in_week [OF d, of 52 ?w] unfolding b .
  also have "sublist (week_cells2 52 ?w)
      (concat (map (\<lambda>x. week_cells2 x (paddedWeeks (weeks ?cal) ! x)) [0..<WEEKS]))"
    using week_in_rects(2) [OF x, of "paddedWeeks (weeks ?cal)"] unfolding p .
  also note s2(2)
  finally have 2: "sublist (rect_markup 686 36 (PALETTE2 ! levelFromCount2 3)
                   ''<title>2024-03-05: 3 contributions</title>'') s2"
    unfolding march5_cell2 .
  have 3: "PALETTE ! levelFromCount 3 = ''#C8D9AA''" "PALETTE2 ! levelFromCount2 3 = ''#C0D9BA''"
    by (simp_all add: levelFromCount_def levelFromCount2_def PALETTE_def PALETTE2_def)
  from s(1) 1 s2(1) 2 3 show ?thesis by blast
qed

subsection \<open>The last entry of a weekday\<close>



subsection \<open>Cells without a tooltip\<close>

lemma pair_split:
  "[a, b] = xs1 @ xs2 \<Longrightarrow>
   xs1 = [] \<and> xs2 = [a, b] \<or> xs1 = [a] \<and> xs2 = [b] \<or> xs1 = [a, b] \<and> xs2 = []"
  by (auto simp: Cons_eq_append_conv)

lemma pair_sublist_append:
  assumes "sublist [a, b] (xs @ ys)"
  shows "sublist [a, b] xs \<or> sublist [a, b] ys \<or> (xs \<noteq> [] \<and> last xs = a)"
proof -
  from assms consider "sublist [a, b] xs" | "sublist [a, b] ys"
    | xs1 xs2 where "[a, b] = xs1 @ xs2" "suffix xs1 xs" "prefix xs2 ys"
    unfolding sublist_append by blast
  then show ?thesis
  proof cases
    case 3
    from pair_split [OF 3(1)] show ?thesis
    proof (elim disjE conjE)
      assume "xs1 = []" "xs2 = [a, b]"
      with 3(3) show ?thesis by (simp add: prefix_imp_sublist)
    next
      assume "xs1 = [a]" "xs2 = [b]"
      with 3(2) show ?thesis by (auto simp: suffix_def)
    next
      assume "xs1 = [a, b]" "xs2 = []"
      with 3(2) show ?thesis by (simp add: suffix_imp_sublist)
    qed
  qed simp_all
qed

lemma no_pair_append:
  assumes "no_pair a b xs" and "no_pair a b ys"
  shows "no_pair a b (xs @ ys)"
proof -
  have "\<not> sublist [a, b] (xs @ ys)"
  proof
    assume "sublist [a, b] (xs @ ys)"
    then have "sublist [a, b] xs \<or> sublist [a, b] ys \<or> (xs \<noteq> [] \<and> last xs = a)"
      by (rule pair_sublist_append)
    with assms show False by (auto simp: no_pair_def)
  qed
  moreover from assms have "xs @ ys = [] \<or> last (xs @ ys) \<noteq> a"
    by (cases "ys = []") (simp_all add: no_pair_def)
  ultimately show ?thesis by (simp add: no_pair_def)
qed

lemma no_pair_absent: "a \<notin> set s \<Longrightarrow> no_pair a b s"
proof -
  assume n: "a \<notin> set s"
  have "\<not> sublist [a, b] s"
  proof
    assume "sublist [a, b] s"
    then have "set [a, b] \<subseteq> set s" by (rule set_mono_sublist)
    with n show False by simp
  qed
  moreover from n have "s = [] \<or> last s \<noteq> a"
    by (cases "s = []") auto
  ultimately show ?thesis by (simp add: no_pair_def)
qed

lemma digit_not_lt:
  assumes "k < (10::nat)"
  shows "char_of (48 + k) \<noteq> CHR ''<''"
  using digit_cases [OF assms] by (elim disjE) (simp_all add: char_of_def bit_Suc_0_iff)

lemma String_nat_no_lt: "CHR ''<'' \<notin> set (String_nat n)"
proof (induction n rule: String_nat.induct)
  case (1 n)
  have "n mod 10 < 10" by simp
  then have d: "char_of (48 + n mod 10) \<noteq> CHR ''<''" by (rule digit_not_lt)
  show ?case
  proof (cases "n < 10")
    case True
    with d show ?thesis by (subst String_nat.simps) auto
  next
    case False
    with d "1.IH" show ?thesis by (subst String_nat.simps) auto
  qed
qed

lemma palette_at_no_lt:
  "CHR ''<'' \<notin> set (palette_at PALETTE i)" "CHR ''<'' \<notin> set (palette_at PALETTE2 i)"
proof -
  have "\<forall>c\<in>set PALETTE. CHR ''<'' \<notin> set c" "\<forall>c\<in>set PALETTE2. CHR ''<'' \<notin> set c"
    by (simp_all add: PALETTE_def PALETTE2_def)
  then show "CHR ''<'' \<notin> set (palette_at PALETTE i)" "CHR ''<'' \<notin> set (palette_at PALETTE2 i)"
    by (simp_all add: palette_at_def)
qed

lemma rect_markup_no_title:
  assumes "CHR ''<'' \<notin> set fill"
  shows "\<not> sublist ''<title'' (rect_markup px py fill [])"
proof -
  let ?q = "[CHR 0x22]"
  let ?l1 = "''\<newline>'' @ ''  <rect x='' @ ?q"
  let ?l2 = "?q @ '' y='' @ ?q"
  let ?l3 = "?q @ '' width='' @ ?q @ ''11'' @ ?q @ '' height='' @ ?q @ ''11'' @ ?q @
             '' rx='' @ ?q @ ''2'' @ ?q @ '' ry='' @ ?q @ ''2'' @ ?q @ '' fill='' @ ?q"
  let ?l4 = "?q @ ''>\<newline>'' @ ''    '' @ ''\<newline>'' @ ''  </rect>''"
  have l: "no_pair CHR ''<'' CHR ''t'' ?l1" "no_pair CHR ''<'' CHR ''t'' ?l2"
    "no_pair CHR ''<'' CHR ''t'' ?l3" "no_pair CHR ''<'' CHR ''t'' ?l4"
    by (simp_all add: no_pair_def sublist_Cons_right)
  have n: "no_pair CHR ''<'' CHR ''t'' (String_nat px)" "no_pair CHR ''<'' CHR ''t'' (String_nat py)"
    "no_pair CHR ''<'' CHR ''t'' fill"
    using String_nat_no_lt assms by (simp_all add: no_pair_absent)
  have e: "rect_markup px py fill [] = ?l1 @ String_nat px @ ?l2 @ String_nat py @ ?l3 @ fill @ ?l4"
    by (simp add: rect_markup_def)
  have "no_pair CHR ''<'' CHR ''t'' (rect_markup px py fill [])"
    unfolding e by (intro no_pair_append l n)
  then have "\<not> sublist ''<t'' (rect_markup px py fill [])"
    by (simp add: no_pair_def)
  moreover have "sublist ''<t'' ''<title''" by (simp add: sublist_Cons_right)
  ultimately show ?thesis
    using sublist_trans by blast
qed

lemma cell_without_date:
  assumes "date_of day = []"
  shows "cell host x y day =
           rect_markup (PAD_X + x * (CELL + GAP)) (gridOffsetY + y * (CELL + GAP))
             (palette_at PALETTE (levelFromCount (count_of day))) []"
    and "\<not> sublist ''<title'' (cell host x y day)"
    and "cell2 x y day =
           rect_markup (PAD_X + x * (CELL + GAP)) (PAD_Y + y * (CELL + GAP))
             (palette_at PALETTE2 (levelFromCount2 (count_of day))) []"
    and "\<not> sublist ''<title'' (cell2 x y day)"
  using assms by (simp_all add: cell_markup cell2_markup rect_markup_no_title palette_at_no_lt)

text \<open>
  A day record with an empty date and a count of 5 gives a cell with no title whose fill
  is the colour of level 2, not of level 0: the fill follows the count, whatever the date.
\<close>

theorem undated_cell_fill:
  "date_of (Some undated) = [] \<and>
   cell nan_host 0 0 (Some undated) = rect_markup 10 34 (PALETTE ! 2) [] \<and>
   rect_markup 10 34 (PALETTE ! 2) [] \<noteq> rect_markup 10 34 (PALETTE ! 0) [] \<and>
   cell2 0 0 (Some undated) = rect_markup 10 10 (PALETTE2 ! 2) [] \<and>
   rect_markup 10 10 (PALETTE2 ! 2) [] \<noteq> rect_markup 10 10 (PALETTE2 ! 0) [] \<and>
   PALETTE ! 0 = ''#97BAA9'' \<and> PALETTE ! 2 = ''#C8D9AA'' \<and>
   PALETTE2 ! 0 = ''#EFCAD1'' \<and> PALETTE2 ! 2 = ''#C0D9BA''"
proof -
  have d: "date_of (Some undated) = []" and c: "count_of (Some undated) = 5"
    by (simp_all add: date_of_def count_of_def undated_def)
  have "cell nan_host 0 0 (Some undated) = rect_markup 10 34 (PALETTE ! 2) []"
    by (simp add: cell_markup d c levelFromCount_def palette_at_def PALETTE_def PAD_X_def
        gridOffsetY_def HEADER_HEIGHT_def PAD_Y_def)
  moreover have "cell2 0 0 (Some undated) = rect_markup 10 10 (PALETTE2 ! 2) []"
    by (simp add: cell2_markup d c levelFromCount2_def palette_at_def PALETTE2_def PAD_X_def PAD_Y_def)
  moreover have "rect_markup 10 34 (PALETTE ! 2) [] \<noteq> rect_markup 10 34 (PALETTE ! 0) []"
    "rect_markup 10 10 (PALETTE2 ! 2) [] \<noteq> rect_markup 10 10 (PALETTE2 ! 0) []"
    by (simp_all add: rect_markup_def PALETTE_def PALETTE2_def)
  moreover have "PALETTE ! 0 = ''#97BAA9''" "PALETTE ! 2 = ''#C8D9AA''"
    "PALETTE2 ! 0 = ''#EFCAD1''" "PALETTE2 ! 2 = ''#C0D9BA''"
    by (simp_all add: PALETTE_def PALETTE2_def)
  ultimately show ?thesis using d by blast
qed

text \<open>
  C10, amended. A cell whose day record is absent or whose date is empty (or null) is a
  \<open>rect\<close> element with an empty child: the markup of the cell contains no
  \<open>title\<close> element. Its fill is the colour of the level of the record's count; that
  is the level-0 colour when the count is 0, as it is for an absent record.
  \<open>formatTooltipDate\<close> returns the empty string for an empty date.
\<close>

theorem cell_without_tooltip:
  "(date_of day = [] \<longrightarrow>
      cell host x y day =
        rect_markup (PAD_X + x * (CELL + GAP)) (gridOffsetY + y * (CELL + GAP))
          (palette_at PALETTE (levelFromCount (count_of day))) [] \<and>
      \<not> sublist ''<title'' (cell host x y day) \<and>
      cell2 x y day =
        rect_markup (PAD_X + x * (CELL + GAP)) (PAD_Y + y * (CELL + GAP))
          (palette_at PALETTE2 (levelFromCount2 (count_of day))) [] \<and>
      \<not> sublist ''<title'' (cell2 x y day)) \<and>
   (count_of day = 0 \<longrightarrow>
      palette_at PALETTE (levelFromCount (count_of day)) = PALETTE ! 0 \<and>
      palette_at PALETTE2 (levelFromCount2 (count_of day)) = PALETTE2 ! 0) \<and>
   date_of None = [] \<and> count_of None = 0 \<and>
   formatTooltipDate host [] count = []"
proof (intro conjI impI)
  assume "date_of day = []"
  note c = cell_without_date [OF this]
  show "cell host x y day =
        rect_markup (PAD_X + x * (CELL + GAP)) (gridOffsetY + y * (CELL + GAP))
          (palette_at PALETTE (levelFromCount (count_of day))) []"
    by (rule c(1))
  show "\<not> sublist ''<title'' (cell host x y day)" by (rule c(2))
  show "cell2 x y day =
        rect_markup (PAD_X + x * (CELL + GAP)) (PAD_Y + y * (CELL + GAP))
          (palette_at PALETTE2 (levelFromCount2 (count_of day))) []"
    by (rule c(3))
  show "\<not> sublist ''<title'' (cell2 x y day)" by (rule c(4))
next
  assume z: "count_of day = 0"
  show "palette_at PALETTE (levelFromCount (count_of day)) = PALETTE ! 0"
    by (simp add: z levelFromCount_def palette_at_def PALETTE_def)
  show "palette_at PALETTE2 (levelFromCount2 (count_of day)) = PALETTE2 ! 0"
    by (simp add: z levelFromCount2_def palette_at_def PALETTE2_def)
next
  show "date_of None = []" by (simp add: date_of_def)
  show "count_of None = 0" by (simp add: count_of_def)
  show "formatTooltipDate host [] count = []" by (simp add: formatTooltipDate_def)
qed

theorem cell_without_tooltip_witness:
  "cell nan_host 3 4 None = rect_markup 49 86 (PALETTE ! 0) [] \<and>
   \<not> sublist ''<title'' (cell nan_host 3 4 None) \<and>
   cell2 3 4 None = rect_markup 49 62 (PALETTE2 ! 0) [] \<and>
   \<not> sublist ''<title'' (cell2 3 4 None) \<and>
   formatTooltipDate nan_host [] 7 = []"
proof -
  note t = cell_without_tooltip [of None nan_host 3 4 7]
  have d: "date_of None = []" and c: "count_of None = 0" using t by blast+
  have g: "PAD_X + 3 * (CELL + GAP) = 49" "gridOffsetY + 4 * (CELL + GAP) = 86"
    "PAD_Y + 4 * (CELL + GAP) = 62"
    by (simp_all add: PAD_X_def CELL_def GAP_def gridOffsetY_def HEADER_HEIGHT_def PAD_Y_def)
  from t d c show ?thesis unfolding g by metis
qed

subsection \<open>The program\<close>

lemma fetchCalendar_trace: "fst (fetchCalendar http token) = [HttpPost token]"
  by (simp add: fetchCalendar_def Let_def split: sum.splits option.splits chain.splits)

lemma main_with_token:
  assumes "GH_TOKEN w = Some token" and "token \<noteq> []"
  shows "\<exists>rest. fst (main w) = HttpPost token # rest"
    and "\<exists>rest. fst (main2 w) = HttpPost token # rest"
proof -
  obtain r where f: "fetchCalendar (fetch w) token = ([HttpPost token], r)"
    using fetchCalendar_trace [of "fetch w" token] by (cases "fetchCalendar (fetch w) token") simp
  show "\<exists>rest. fst (main w) = HttpPost token # rest"
    using assms f by (simp add: main_def split: sum.splits option.splits prod.splits)
  show "\<exists>rest. fst (main2 w) = HttpPost token # rest"
    using assms f by (simp add: main2_def split: sum.splits option.splits prod.splits)
qed

text \<open>
  C8. When the token is absent (unset or empty), \<open>main\<close> raises the missing-token
  error having caused no event at all, so no request is sent, and the top level prints
  the error and exits with code 1. With a token the first event of \<open>main\<close> is the
  request.
\<close>

theorem missing_token_fatal:
  "(GH_TOKEN w = None \<or> GH_TOKEN w = Some [] \<longrightarrow>
      main w = ([], Inl (Error ''Missing GH_TOKEN env var.'')) \<and>
      program w = ([ConsoleError (Error ''Missing GH_TOKEN env var.''), Exit 1], 1) \<and>
      main2 w = ([], Inl (Error ''Missing GH_TOKEN env var.'')) \<and>
      program2 w = ([ConsoleError (Error ''Missing GH_TOKEN env var.''), Exit 1], 1)) \<and>
   (GH_TOKEN w = Some token \<and> token \<noteq> [] \<longrightarrow>
      (\<exists>rest. fst (main w) = HttpPost token # rest) \<and>
      (\<exists>rest. fst (main2 w) = HttpPost token # rest))"
proof (intro conjI impI)
  assume "GH_TOKEN w = None \<or> GH_TOKEN w = Some []"
  then show m: "main w = ([], Inl (Error ''Missing GH_TOKEN env var.''))"
    and m2: "main2 w = ([], Inl (Error ''Missing GH_TOKEN env var.''))"
    by (auto simp: main_def main2_def)
  show "program w = ([ConsoleError (Error ''Missing GH_TOKEN env var.''), Exit 1], 1)"
    by (simp add: program_def m)
  show "program2 w = ([ConsoleError (Error ''Missing GH_TOKEN env var.''), Exit 1], 1)"
    by (simp add: program2_def m2)
next
  assume "GH_TOKEN w = Some token \<and> token \<noteq> []"
  then show "\<exists>rest. fst (main w) = HttpPost token # rest"
    and "\<exists>rest. fst (main2 w) = HttpPost token # rest"
    using main_with_token [of w token] by blast+
qed

theorem missing_token_fatal_witness:
  "program (a_world None) = ([ConsoleError (Error ''Missing GH_TOKEN env var.''), Exit 1], 1) \<and>
   program (a_world (Some [])) = ([ConsoleError (Error ''Missing GH_TOKEN env var.''), Exit 1], 1) \<and>
   program2 (a_world None) = ([ConsoleError (Error ''Missing GH_TOKEN env var.''), Exit 1], 1) \<and>
   (\<exists>rest. fst (main (a_world (Some ''ghp''))) = HttpPost ''ghp'' # rest) \<and>
   program (a_world (Some ''ghp'')) =
     ([HttpPost ''ghp'', ConsoleError (Error ''GitHub API error: 401\<newline>Bad credentials''), Exit 1], 1)"
proof -
  have g: "GH_TOKEN (a_world t) = t" for t by (simp add: a_world_def)
  from missing_token_fatal [of "a_world None" "[]"] g [of None]
  have 1: "program (a_world None) = ([ConsoleError (Error ''Missing GH_TOKEN env var.''), Exit 1], 1)"
    "program2 (a_world None) = ([ConsoleError (Error ''Missing GH_TOKEN env var.''), Exit 1], 1)"
    by simp_all
  from missing_token_fatal [of "a_world (Some [])" "[]"] g [of "Some []"]
  have 2: "program (a_world (Some [])) = ([ConsoleError (Error ''Missing GH_TOKEN env var.''), Exit 1], 1)"
    by simp
  from missing_token_fatal [of "a_world (Some ''ghp'')" "''ghp''"] g [of "Some ''ghp''"]
  have 3: "\<exists>rest. fst (main (a_world (Some ''ghp''))) = HttpPost ''ghp'' # rest"
    by simp
  have 4: "program (a_world (Some ''ghp'')) =
     ([HttpPost ''ghp'', ConsoleError (Error ''GitHub API error: 401\<newline>Bad credentials''), Exit 1], 1)"
    by (simp add: program_def main_def fetchCalendar_def a_world_def unauthorized_def Let_def
        String_int_def String_nat.simps char_of_def bit_Suc_0_iff)
  from 1 2 3 4 show ?thesis by blast
qed

end
